theory Spec2Isabelle
  imports Main "HOL-Library.Sublist" "HOL-Library.AList"
begin

section \<open>Python values and errors\<close>

text \<open>
  The functions of \<^verbatim>\<open>jupyterlab/commands.py\<close> that are modelled here work on
  strings, lists and JSON dictionaries. A dictionary is an association list with the
  keys in insertion order; a Python exception is the \<open>Inl\<close> branch of a sum.
\<close>

datatype py_error =
  KeyError string | IndexError | ReError string | AttributeError | ValueError

type_synonym 'v dict = "(string \<times> 'v) list"

definition has_key :: "'v dict \<Rightarrow> string \<Rightarrow> bool" where
  "has_key d k = (map_of d k \<noteq> None)"

definition getitem :: "'v dict \<Rightarrow> string \<Rightarrow> py_error + 'v" where
  "getitem d k = (case map_of d k of None \<Rightarrow> Inl (KeyError k) | Some v \<Rightarrow> Inr v)"

definition setitem :: "'v dict \<Rightarrow> string \<Rightarrow> 'v \<Rightarrow> 'v dict" where
  "setitem d k v = AList.update k v d"

definition pop :: "'v dict \<Rightarrow> string \<Rightarrow> py_error + 'v dict" where
  "pop d k = (if has_key d k then Inr (AList.delete k d) else Inl (KeyError k))"

definition startswith :: "string \<Rightarrow> string \<Rightarrow> bool" where
  "startswith s p = prefix p s"

section \<open>The semver module\<close>

text \<open>
  Modelled from the spec: the module \<^verbatim>\<open>jupyterlab/semver.py\<close> (the class
  \<^verbatim>\<open>Range\<close> and the comparisons \<^verbatim>\<open>gte\<close>, \<^verbatim>\<open>lt\<close>, \<^verbatim>\<open>lte\<close>,
  \<^verbatim>\<open>gt\<close>) is imported by \<^verbatim>\<open>commands.py\<close> and is not among the sources. The
  spec describes a parsed range by its first segment: a low bound version, a high bound
  version (the same version when the expression pins an exact version) and the
  comparator token of the first bound; a range of several segments is not decomposed,
  and an expression that cannot be parsed is the empty range.

  The model reads the range grammar of semantic versions: segments separated by
  \<^verbatim>\<open>||\<close>; in a segment a hyphen range \<^verbatim>\<open>1.2.3 - 2.3.4\<close> or comparators
  separated by white space; a comparator is a version with one of \<^verbatim>\<open>< > <= >= =\<close>
  or nothing in front of it, a tilde range \<^verbatim>\<open>~1.2.3\<close> or a caret range
  \<^verbatim>\<open>^1.0.0\<close>; a version may be partial (\<^verbatim>\<open>1.2\<close>, \<^verbatim>\<open>1.x\<close>), and
  \<^verbatim>\<open>*\<close> or the empty segment admits every version. The comparator that admits
  every version has no operator (\<^verbatim>\<open>None\<close>) and the object \<^verbatim>\<open>ANY\<close> as its
  version; comparing \<^verbatim>\<open>ANY\<close> raises. A version is its three numbers: pre-release
  tags and build metadata are left out, and a word with one is no comparator here.
\<close>

record SemVer =
  major :: nat
  minor :: nat
  patch :: nat

datatype version_obj = ANY | Version SemVer

record Comparator =
  operator :: "string option"
  semver :: version_obj

record Range_rec =
  range' :: string
  set' :: "Comparator list list"

definition compare_main :: "SemVer \<Rightarrow> SemVer \<Rightarrow> int" where
  "compare_main a b =
     (if major a \<noteq> major b then (if major a < major b then - 1 else 1)
      else if minor a \<noteq> minor b then (if minor a < minor b then - 1 else 1)
      else if patch a \<noteq> patch b then (if patch a < patch b then - 1 else 1)
      else 0)"

definition compare :: "version_obj \<Rightarrow> version_obj \<Rightarrow> bool \<Rightarrow> py_error + int" where
  "compare a b loose =
     (case a of
        ANY \<Rightarrow> Inl ValueError
      | Version v \<Rightarrow> (case b of ANY \<Rightarrow> Inl ValueError | Version w \<Rightarrow> Inr (compare_main v w)))"

definition gt :: "version_obj \<Rightarrow> version_obj \<Rightarrow> bool \<Rightarrow> py_error + bool" where
  "gt a b loose = (case compare a b loose of Inl e \<Rightarrow> Inl e | Inr c \<Rightarrow> Inr (c > 0))"

definition lt :: "version_obj \<Rightarrow> version_obj \<Rightarrow> bool \<Rightarrow> py_error + bool" where
  "lt a b loose = (case compare a b loose of Inl e \<Rightarrow> Inl e | Inr c \<Rightarrow> Inr (c < 0))"

definition gte :: "version_obj \<Rightarrow> version_obj \<Rightarrow> bool \<Rightarrow> py_error + bool" where
  "gte a b loose = (case compare a b loose of Inl e \<Rightarrow> Inl e | Inr c \<Rightarrow> Inr (c \<ge> 0))"

definition lte :: "version_obj \<Rightarrow> version_obj \<Rightarrow> bool \<Rightarrow> py_error + bool" where
  "lte a b loose = (case compare a b loose of Inl e \<Rightarrow> Inl e | Inr c \<Rightarrow> Inr (c \<le> 0))"

text \<open>Numbers and versions, read and printed.\<close>

definition is_digit :: "char \<Rightarrow> bool" where
  "is_digit c = (c \<in> set ''0123456789'')"

definition parse_nat :: "string \<Rightarrow> nat option" where
  "parse_nat s =
     (if s \<noteq> [] \<and> list_all is_digit s
      then Some (foldl (\<lambda>n c. 10 * n + (of_char c - 48)) 0 s) else None)"

fun split_on :: "char \<Rightarrow> string \<Rightarrow> string list" where
  "split_on d [] = [[]]"
| "split_on d (c # cs) =
     (if c = d then [] # split_on d cs
      else (case split_on d cs of [] \<Rightarrow> [[c]] | w # ws \<Rightarrow> (c # w) # ws))"

fun show_nat :: "nat \<Rightarrow> string" where
  "show_nat n =
     (if n < 10 then [''0123456789'' ! n]
      else show_nat (n div 10) @ [''0123456789'' ! (n mod 10)])"

declare show_nat.simps [simp del]

definition show_version :: "SemVer \<Rightarrow> string" where
  "show_version v = show_nat (major v) @ ''.'' @ show_nat (minor v) @ ''.'' @ show_nat (patch v)"

fun join :: "string \<Rightarrow> string list \<Rightarrow> string" where
  "join sep [] = []"
| "join sep [s] = s"
| "join sep (s # t # ts) = s @ sep @ join sep (t # ts)"

definition is_space :: "char \<Rightarrow> bool" where
  "is_space c = (c = CHR '' '' \<or> c = CHR 0x09)"

definition strip :: "string \<Rightarrow> string" where
  "strip s = rev (dropWhile is_space (rev (dropWhile is_space s)))"

text \<open>The segments of a range expression, separated by \<^verbatim>\<open>||\<close>.\<close>

fun split_bars :: "string \<Rightarrow> string list" where
  "split_bars [] = [[]]"
| "split_bars [c] = [[c]]"
| "split_bars (c # d # cs) =
     (if c = CHR ''|'' \<and> d = CHR ''|'' then [] # split_bars cs
      else (case split_bars (d # cs) of [] \<Rightarrow> [[c]] | w # ws \<Rightarrow> (c # w) # ws))"

text \<open>The words of a segment, separated by white space.\<close>

fun words_from :: "string \<Rightarrow> string \<Rightarrow> string list" where
  "words_from w [] = (if w = [] then [] else [w])"
| "words_from w (c # cs) =
     (if is_space c then (if w = [] then words_from [] cs else w # words_from [] cs)
      else words_from (w @ [c]) cs)"

definition words :: "string \<Rightarrow> string list" where
  "words s = words_from [] s"

text \<open>An operator that stands alone is joined to the word after it.\<close>

definition is_operator_word :: "string \<Rightarrow> bool" where
  "is_operator_word w = (w \<in> set [''<'', ''>'', ''<='', ''>='', ''='', ''~'', ''~>'', ''^''])"

fun join_operators :: "string list \<Rightarrow> string list" where
  "join_operators [] = []"
| "join_operators [w] = [w]"
| "join_operators (w # v # ws) =
     (if is_operator_word w then join_operators ((w @ v) # ws)
      else w # join_operators (v # ws))"

text \<open>
  A partial version: one to three parts, each a number or one of \<^verbatim>\<open>x\<close>,
  \<^verbatim>\<open>X\<close>, \<^verbatim>\<open>*\<close>; a part that is left out counts as \<^verbatim>\<open>x\<close>.
\<close>

type_synonym partial = "nat option \<times> nat option \<times> nat option"

definition parse_xr :: "string \<Rightarrow> nat option option" where
  "parse_xr s =
     (if s = ''x'' \<or> s = ''X'' \<or> s = ''*'' then Some None
      else (case parse_nat s of None \<Rightarrow> None | Some n \<Rightarrow> Some (Some n)))"

definition parse_partial :: "string \<Rightarrow> partial option" where
  "parse_partial s =
     (case map parse_xr (split_on CHR ''.'' s) of
        [Some a] \<Rightarrow> Some (a, None, None)
      | [Some a, Some b] \<Rightarrow> Some (a, b, None)
      | [Some a, Some b, Some c] \<Rightarrow> Some (a, b, c)
      | _ \<Rightarrow> None)"

definition comparator :: "string \<Rightarrow> nat \<Rightarrow> nat \<Rightarrow> nat \<Rightarrow> Comparator" where
  "comparator op M m p =
     \<lparr>operator = Some op, semver = Version \<lparr>major = M, minor = m, patch = p\<rparr>\<rparr>"

definition any_comparator :: Comparator where
  "any_comparator = \<lparr>operator = None, semver = ANY\<rparr>"

definition comparator_value :: "Comparator \<Rightarrow> string" where
  "comparator_value c =
     (case operator c of
        None \<Rightarrow> ''''
      | Some op \<Rightarrow> (case semver c of ANY \<Rightarrow> op | Version v \<Rightarrow> op @ show_version v))"

text \<open>
  A partial version with an operator in front of it, or with none: \<^verbatim>\<open>1.x\<close> is
  \<^verbatim>\<open>>=1.0.0 <2.0.0\<close>, \<^verbatim>\<open>>1.2\<close> is \<^verbatim>\<open>>=1.3.0\<close>, \<^verbatim>\<open><=1\<close> is
  \<^verbatim>\<open><2.0.0\<close>, and \<^verbatim>\<open>*\<close> is the comparator that admits every version.
\<close>

definition replace_xrange :: "string \<Rightarrow> partial \<Rightarrow> Comparator list" where
  "replace_xrange op P =
     (case P of
        (None, m, p) \<Rightarrow>
          if op = ''>'' \<or> op = ''<'' then [comparator ''<'' 0 0 0] else [any_comparator]
      | (Some M, None, p) \<Rightarrow>
          if op = ''>'' then [comparator ''>='' (M + 1) 0 0]
          else if op = ''<='' then [comparator ''<'' (M + 1) 0 0]
          else if op = ''>='' \<or> op = ''<'' then [comparator op M 0 0]
          else [comparator ''>='' M 0 0, comparator ''<'' (M + 1) 0 0]
      | (Some M, Some m, None) \<Rightarrow>
          if op = ''>'' then [comparator ''>='' M (m + 1) 0]
          else if op = ''<='' then [comparator ''<'' M (m + 1) 0]
          else if op = ''>='' \<or> op = ''<'' then [comparator op M m 0]
          else [comparator ''>='' M m 0, comparator ''<'' M (m + 1) 0]
      | (Some M, Some m, Some p) \<Rightarrow> [comparator op M m p])"

text \<open>\<^verbatim>\<open>~1.2.3\<close> is \<^verbatim>\<open>>=1.2.3 <1.3.0\<close>, and \<^verbatim>\<open>~1\<close> is \<^verbatim>\<open>>=1.0.0 <2.0.0\<close>.\<close>

definition replace_tilde :: "partial \<Rightarrow> Comparator list" where
  "replace_tilde P =
     (case P of
        (None, m, p) \<Rightarrow> [any_comparator]
      | (Some M, None, p) \<Rightarrow> [comparator ''>='' M 0 0, comparator ''<'' (M + 1) 0 0]
      | (Some M, Some m, None) \<Rightarrow> [comparator ''>='' M m 0, comparator ''<'' M (m + 1) 0]
      | (Some M, Some m, Some p) \<Rightarrow> [comparator ''>='' M m p, comparator ''<'' M (m + 1) 0])"

text \<open>
  \<^verbatim>\<open>^1.0.0\<close> is \<^verbatim>\<open>>=1.0.0 <2.0.0\<close>, as the spec writes it; below version 1 the
  leftmost part that is not zero is the one that stays fixed.
\<close>

definition replace_caret :: "partial \<Rightarrow> Comparator list" where
  "replace_caret P =
     (case P of
        (None, m, p) \<Rightarrow> [any_comparator]
      | (Some M, None, p) \<Rightarrow> [comparator ''>='' M 0 0, comparator ''<'' (M + 1) 0 0]
      | (Some M, Some m, None) \<Rightarrow>
          if M = 0 then [comparator ''>='' M m 0, comparator ''<'' M (m + 1) 0]
          else [comparator ''>='' M m 0, comparator ''<'' (M + 1) 0 0]
      | (Some M, Some m, Some p) \<Rightarrow>
          if M = 0 then
            (if m = 0 then [comparator ''>='' M m p, comparator ''<'' M m (p + 1)]
             else [comparator ''>='' M m p, comparator ''<'' M (m + 1) 0])
          else [comparator ''>='' M m p, comparator ''<'' (M + 1) 0 0])"

text \<open>\<^verbatim>\<open>1.2.3 - 2.3.4\<close> is \<^verbatim>\<open>>=1.2.3 <=2.3.4\<close>, and \<^verbatim>\<open>1.2.3 - 2\<close> is \<^verbatim>\<open>>=1.2.3 <3.0.0\<close>.\<close>

definition hyphen_replace :: "partial \<Rightarrow> partial \<Rightarrow> Comparator list" where
  "hyphen_replace A B =
     (let lower = (case A of
                    (None, m, p) \<Rightarrow> []
                  | (Some M, None, p) \<Rightarrow> [comparator ''>='' M 0 0]
                  | (Some M, Some m, None) \<Rightarrow> [comparator ''>='' M m 0]
                  | (Some M, Some m, Some p) \<Rightarrow> [comparator ''>='' M m p]);
          upper = (case B of
                    (None, m, p) \<Rightarrow> []
                  | (Some M, None, p) \<Rightarrow> [comparator ''<'' (M + 1) 0 0]
                  | (Some M, Some m, None) \<Rightarrow> [comparator ''<'' M (m + 1) 0]
                  | (Some M, Some m, Some p) \<Rightarrow> [comparator ''<='' M m p])
      in if lower @ upper = [] then [any_comparator] else lower @ upper)"

text \<open>
  One word of a segment. A word that is no comparator gives no comparator: the source
  asks for the loose mode, which leaves such words out.
\<close>

definition with_partial :: "string \<Rightarrow> (partial \<Rightarrow> Comparator list) \<Rightarrow> Comparator list" where
  "with_partial s f = (case parse_partial s of None \<Rightarrow> [] | Some P \<Rightarrow> f P)"

definition parse_comparator :: "string \<Rightarrow> Comparator list" where
  "parse_comparator w =
     (if startswith w ''^'' then with_partial (drop 1 w) replace_caret
      else if startswith w ''~>'' then with_partial (drop 2 w) replace_tilde
      else if startswith w ''~'' then with_partial (drop 1 w) replace_tilde
      else if startswith w ''>='' then with_partial (drop 2 w) (replace_xrange ''>='')
      else if startswith w ''<='' then with_partial (drop 2 w) (replace_xrange ''<='')
      else if startswith w ''>'' then with_partial (drop 1 w) (replace_xrange ''>'')
      else if startswith w ''<'' then with_partial (drop 1 w) (replace_xrange ''<'')
      else if startswith w ''='' then with_partial (drop 1 w) (replace_xrange ''='')
      else with_partial w (replace_xrange ''''))"

text \<open>One segment: a hyphen range, or a list of comparators; the empty segment admits every version.\<close>

definition parse_range :: "string \<Rightarrow> Comparator list" where
  "parse_range s =
     (let ws = words s;
          comparators = concat (map parse_comparator (join_operators ws))
      in case ws of
           [] \<Rightarrow> [any_comparator]
         | [a, h, b] \<Rightarrow>
             (if h = ''-'' then
                (case parse_partial a of
                   None \<Rightarrow> comparators
                 | Some A \<Rightarrow> (case parse_partial b of
                                None \<Rightarrow> comparators
                              | Some B \<Rightarrow> hyphen_replace A B))
              else comparators)
         | _ \<Rightarrow> comparators)"

text \<open>
  The range object: its segments in \<^verbatim>\<open>set\<close>, a segment without comparators left
  out, and its text in \<^verbatim>\<open>range\<close>. An expression with no segment left is the empty
  range.
\<close>

definition Range' :: "string \<Rightarrow> bool \<Rightarrow> Range_rec" where
  "Range' spec loose =
     (let segments = filter (\<lambda>cs. cs \<noteq> []) (map parse_range (split_bars spec))
      in \<lparr>range' = join ''||'' (map (\<lambda>cs. strip (join '' '' (map comparator_value cs))) segments),
          set' = segments\<rparr>)"

section \<open>The overlap test\<close>

text \<open>
  \<^verbatim>\<open>_test_overlap(spec1, spec2)\<close>, lines 1140 to 1187. The result is \<open>None\<close>
  where the source returns without a value. \<^verbatim>\<open>r.set[0][0]\<close> and
  \<^verbatim>\<open>r.set[0][-1]\<close> raise \<^verbatim>\<open>IndexError\<close> on an empty list, and
  \<^verbatim>\<open>o1.startswith\<close> raises \<^verbatim>\<open>AttributeError\<close> when the operator is
  \<^verbatim>\<open>None\<close>; in line 1163 \<^verbatim>\<open>o2.startswith\<close> is reached only when the first test
  is false. \<^verbatim>\<open>x1 == x2\<close> is the equality of the two versions; for a segment of
  one comparator the two are the same object. The helper \<^verbatim>\<open>gy\<close> is chosen by
  \<^verbatim>\<open>x1 == x2\<close>, as the source has it. \<open>py_and\<close> and \<open>py_or\<close> are
  \<^verbatim>\<open>and\<close> and \<^verbatim>\<open>or\<close> on results that may raise: the right operand is
  evaluated only when the left one does not decide. \<open>check_overlap\<close> is lines 1166 to
  1187.
\<close>

definition noop :: "version_obj \<Rightarrow> version_obj \<Rightarrow> bool \<Rightarrow> py_error + bool" where
  "noop x y z = Inr True"

definition py_and :: "py_error + bool \<Rightarrow> py_error + bool \<Rightarrow> py_error + bool" where
  "py_and a b = (case a of Inl e \<Rightarrow> Inl e | Inr t \<Rightarrow> if t then b else Inr False)"

definition py_or :: "py_error + bool \<Rightarrow> py_error + bool \<Rightarrow> py_error + bool" where
  "py_or a b = (case a of Inl e \<Rightarrow> Inl e | Inr t \<Rightarrow> if t then Inr True else b)"

definition first_last :: "Range_rec \<Rightarrow> py_error + (Comparator \<times> Comparator)" where
  "first_last r =
     (case set' r of
        [] \<Rightarrow> Inl IndexError
      | [] # _ \<Rightarrow> Inl IndexError
      | (c # cs) # _ \<Rightarrow> Inr (c, last (c # cs)))"

definition check_overlap ::
  "version_obj \<Rightarrow> version_obj \<Rightarrow> string \<Rightarrow> version_obj \<Rightarrow> version_obj \<Rightarrow> string \<Rightarrow>
   py_error + bool" where
  "check_overlap x1 x2 o1 y1 y2 o2 =
     (let lx = (if x1 = x2 then lte else lt);
          ly = (if y1 = y2 then lte else lt);
          gx = (if x1 = x2 then gte else gt);
          gy = (if x1 = x2 then gte else gt);
          lx = (if x1 = x2 \<and> startswith o1 ''>'' then noop else lx);
          ly = (if y1 = y2 \<and> startswith o2 ''>'' then noop else ly)
      in py_or (py_or (py_or
           (py_and (gte x1 y1 True) (ly x1 y2 True))
           (py_and (gy x2 y1 True) (ly x2 y2 True)))
           (py_and (gte y1 x1 True) (lx y1 x2 True)))
           (py_and (gx y2 x1 True) (lx y2 x2 True)))"

definition test_overlap :: "string \<Rightarrow> string \<Rightarrow> py_error + bool option" where
  "test_overlap spec1 spec2 =
     (let r1 = Range' spec1 True;
          r2 = Range' spec2 True
      in if range' r1 = [] \<or> range' r2 = [] then Inr None
         else
           (case first_last r1 of Inl e \<Rightarrow> Inl e
            | Inr (c1, c2) \<Rightarrow>
           (case first_last r2 of Inl e \<Rightarrow> Inl e
            | Inr (d1, d2) \<Rightarrow>
              let x1 = semver c1; x2 = semver c2;
                  y1 = semver d1; y2 = semver d2
              in (case operator c1 of
                    None \<Rightarrow> Inl AttributeError
                  | Some o1 \<Rightarrow>
                      if startswith o1 ''<'' then Inr None
                      else
                        (case operator d1 of
                           None \<Rightarrow> Inl AttributeError
                         | Some o2 \<Rightarrow>
                             if startswith o2 ''<'' then Inr None
                             else
                               (case check_overlap x1 x2 o1 y1 y2 o2 of
                                  Inl e \<Rightarrow> Inl e
                                | Inr overlap \<Rightarrow> Inr (Some overlap)))))))"

section \<open>Package data\<close>

text \<open>
  The core template \<^verbatim>\<open>staging/package.json\<close> read by \<^verbatim>\<open>_get_core_data\<close>: the
  dependency pins and the \<^verbatim>\<open>jupyterlab\<close> block. A conflict is the triple that
  \<^verbatim>\<open>_validate_compatibility\<close> appends: package name, range of the core, range of the
  extension.
\<close>

record jupyterlab_data =
  version :: string
  extensions :: "string dict"
  mimeExtensions :: "string dict"
  singletonPackages :: "string list"
  linkedPackages :: "string dict"

record package_data =
  dependencies :: "string dict"
  jupyterlab :: jupyterlab_data

type_synonym conflict = "string \<times> string \<times> string"

section \<open>Compatibility of an extension\<close>

text \<open>
  \<^verbatim>\<open>_validate_compatibility(extension, deps, core_data)\<close>, lines 1123 to 1137. The
  loop over \<^verbatim>\<open>deps.items()\<close> is \<open>validate_deps\<close>, with the list \<^verbatim>\<open>errors\<close> as
  accumulator. \<^verbatim>\<open>core_deps[key]\<close> raises \<^verbatim>\<open>KeyError\<close> on a missing key, and
  \<^verbatim>\<open>overlap is False\<close> holds for \<open>Some False\<close> only.
\<close>

fun validate_deps ::
  "string dict \<Rightarrow> string list \<Rightarrow> string dict \<Rightarrow> conflict list \<Rightarrow> py_error + conflict list" where
  "validate_deps core_deps singletons [] errors = Inr errors"
| "validate_deps core_deps singletons ((key, value) # rest) errors =
     (if key \<in> set singletons then
        (case getitem core_deps key of
           Inl e \<Rightarrow> Inl e
         | Inr pin \<Rightarrow>
             (case test_overlap pin value of
                Inl e \<Rightarrow> Inl e
              | Inr overlap \<Rightarrow>
                  validate_deps core_deps singletons rest
                    (if overlap = Some False then errors @ [(key, pin, value)] else errors)))
      else validate_deps core_deps singletons rest errors)"

definition validate_compatibility ::
  "string \<Rightarrow> string dict \<Rightarrow> package_data \<Rightarrow> py_error + conflict list" where
  "validate_compatibility extension deps core_data =
     (let core_deps = dependencies core_data;
          singletons = singletonPackages (jupyterlab core_data)
      in validate_deps core_deps singletons deps [])"

section \<open>Disabled extensions\<close>

text \<open>
  \<^verbatim>\<open>_is_disabled(name, disabled)\<close>, lines 1190 to 1198. Python's \<^verbatim>\<open>re\<close> module
  is a library outside the repository. \<open>re_match re_other pattern name\<close> stands for
  \<^verbatim>\<open>re.compile(pattern).match(name) is not None\<close>, and is \<open>Inl\<close> when
  \<^verbatim>\<open>re.compile\<close> raises \<^verbatim>\<open>re.error\<close>. Two facts about the library are written
  out: a pattern with none of the special characters
  \<^verbatim>\<open>. ^ $ * + ? { } [ ] \ | ( )\<close> matches itself, so it matches at the beginning of the
  name exactly when it is a prefix of the name; and the pattern \<^verbatim>\<open>(\<close> is rejected
  by \<^verbatim>\<open>re.compile\<close>. Every other pattern is left to the parameter \<open>re_other\<close>.
\<close>

definition re_special :: "char \<Rightarrow> bool" where
  "re_special c = (c \<in> set (CHR 0x5C # ''.^$*+?{}[]|()''))"

definition re_match ::
  "(string \<Rightarrow> string \<Rightarrow> py_error + bool) \<Rightarrow> string \<Rightarrow> string \<Rightarrow> py_error + bool" where
  "re_match re_other pattern name =
     (if \<not> list_ex re_special pattern then Inr (startswith name pattern)
      else if pattern = ''('' then Inl (ReError ''missing ), unterminated subpattern'')
      else re_other pattern name)"

fun is_disabled ::
  "(string \<Rightarrow> string \<Rightarrow> py_error + bool) \<Rightarrow> string \<Rightarrow> string list \<Rightarrow> py_error + bool" where
  "is_disabled re_other name [] = Inr False"
| "is_disabled re_other name (pattern # disabled) =
     (if name = pattern then Inr True
      else (case re_match re_other pattern name of
              Inl e \<Rightarrow> Inl e
            | Inr matched \<Rightarrow> if matched then Inr True else is_disabled re_other name disabled))"

section \<open>The application handler\<close>

text \<open>
  The part of \<^verbatim>\<open>self.info\<close> that \<^verbatim>\<open>_get_package_template\<close> and
  \<^verbatim>\<open>build_check\<close> read, as a record; \<open>info_extensions\<close> is
  \<^verbatim>\<open>info['extensions']\<close>. A value of the \<^verbatim>\<open>jupyterlab\<close> block of an extension
  is a boolean or a string. \<open>built_package\<close> is the content of
  \<^verbatim>\<open>static/package.json\<close>: its \<^verbatim>\<open>jupyterlab\<close> block with the version, which
  \<^verbatim>\<open>.get('version', '')\<close> allows to be missing, and its dependencies, which
  \<^verbatim>\<open>.get('dependencies', dict())\<close> allows to be missing.

  What the handler takes from the file system and from libraries is the environment:
  the application directory, \<^verbatim>\<open>pjoin\<close>, the local function \<^verbatim>\<open>format_path\<close> (built
  on \<^verbatim>\<open>os.path.relpath\<close>), \<^verbatim>\<open>_check_local\<close> (which packs a directory and looks
  for the tarball), \<^verbatim>\<open>distutils.version.LooseVersion\<close>, and the built package file
  (\<open>None\<close> when the file does not exist). The messages sent to the logger are not
  part of the model; \<^verbatim>\<open>silent\<close> changes nothing else.
\<close>

datatype json_value = JBool bool | JStr string

definition truthy :: "json_value \<Rightarrow> bool" where
  "truthy j = (case j of JBool b \<Rightarrow> b | JStr s \<Rightarrow> s \<noteq> [])"

record extension_data =
  path :: string
  ext_version :: string
  ext_jupyterlab :: "json_value dict"
  ext_dependencies :: "string dict"

record linked_data =
  source :: string
  filename :: string

record app_info =
  core_data :: package_data
  local_extensions :: "string dict"
  linked_packages :: "linked_data dict"
  info_extensions :: "extension_data dict"
  uninstalled_core :: "string list"

record built_package =
  built_version :: "string option"
  built_extensions :: "string dict"
  built_mimeExtensions :: "string dict"
  built_dependencies :: "string dict option"

record 'lv environment =
  app_dir :: string
  pjoin :: "string list \<Rightarrow> string"
  format_path :: "string \<Rightarrow> string"
  check_local :: "string \<Rightarrow> string \<Rightarrow> string \<Rightarrow> bool"
  LooseVersion :: "string \<Rightarrow> 'lv"
  static_package :: "built_package option"

text \<open>
  \<^verbatim>\<open>_get_extension_compat\<close>, lines 796 to 804, and \<^verbatim>\<open>_get_package_template\<close>,
  lines 660 to 723. The source binds \<^verbatim>\<open>data = self.info['core_data']\<close> and updates
  that dictionary in place, so the function returns the template together with the
  handler's info, whose \<^verbatim>\<open>core_data\<close> is the same object. The four loops of the
  source are \<open>template_extensions\<close>, \<open>template_local\<close>, \<open>template_linked\<close> and
  \<open>template_uninstalled\<close>.
\<close>

fun get_extension_compat_loop ::
  "package_data \<Rightarrow> extension_data dict \<Rightarrow> conflict list dict \<Rightarrow> py_error + conflict list dict" where
  "get_extension_compat_loop cd [] compat_acc = Inr compat_acc"
| "get_extension_compat_loop cd ((name, data) # rest) compat_acc =
     (let deps = ext_dependencies data
      in case validate_compatibility name deps cd of
           Inl e \<Rightarrow> Inl e
         | Inr errors \<Rightarrow> get_extension_compat_loop cd rest (setitem compat_acc name errors))"

definition get_extension_compat :: "app_info \<Rightarrow> py_error + conflict list dict" where
  "get_extension_compat info = get_extension_compat_loop (core_data info) (info_extensions info) []"

definition entry_point :: "json_value dict \<Rightarrow> string \<Rightarrow> string option" where
  "entry_point jlab_data item =
     (case map_of jlab_data item of
        None \<Rightarrow> None
      | Some ext \<Rightarrow>
          if \<not> truthy ext then None
          else Some (case ext of JBool b \<Rightarrow> '''' | JStr s \<Rightarrow> s))"

definition add_entry_points :: "string \<Rightarrow> json_value dict \<Rightarrow> jupyterlab_data \<Rightarrow> jupyterlab_data" where
  "add_entry_points key jlab_data jlab =
     (let jlab = (case entry_point jlab_data ''extension'' of
                    None \<Rightarrow> jlab
                  | Some ext \<Rightarrow> jlab\<lparr>extensions := setitem (extensions jlab) key ext\<rparr>)
      in case entry_point jlab_data ''mimeExtension'' of
           None \<Rightarrow> jlab
         | Some ext \<Rightarrow> jlab\<lparr>mimeExtensions := setitem (mimeExtensions jlab) key ext\<rparr>)"

fun template_extensions ::
  "'lv environment \<Rightarrow> conflict list dict \<Rightarrow> extension_data dict \<Rightarrow> package_data \<Rightarrow>
   py_error + package_data" where
  "template_extensions env compat_errors [] data = Inr data"
| "template_extensions env compat_errors ((key, value) # rest) data =
     (case getitem compat_errors key of
        Inl e \<Rightarrow> Inl e
      | Inr errors \<Rightarrow>
          if errors \<noteq> [] then template_extensions env compat_errors rest data
          else
            let data = data\<lparr>dependencies :=
                         setitem (dependencies data) key (format_path env (path value))\<rparr>;
                data = data\<lparr>jupyterlab :=
                         add_entry_points key (ext_jupyterlab value) (jupyterlab data)\<rparr>
            in template_extensions env compat_errors rest data)"

fun template_local :: "string dict \<Rightarrow> package_data \<Rightarrow> package_data" where
  "template_local [] data = data"
| "template_local ((key, src) # rest) data =
     template_local rest
       (data\<lparr>jupyterlab := (jupyterlab data)
          \<lparr>linkedPackages := setitem (linkedPackages (jupyterlab data)) key src\<rparr>\<rparr>)"

fun template_linked :: "'lv environment \<Rightarrow> linked_data dict \<Rightarrow> package_data \<Rightarrow> package_data" where
  "template_linked env [] data = data"
| "template_linked env ((key, item) # rest) data =
     (let p = pjoin env [app_dir env, ''staging'', ''linked_packages''];
          p = pjoin env [p, filename item];
          data = data\<lparr>dependencies := setitem (dependencies data) key (format_path env p)\<rparr>;
          data = data\<lparr>jupyterlab := (jupyterlab data)
                   \<lparr>linkedPackages := setitem (linkedPackages (jupyterlab data)) key (source item)\<rparr>\<rparr>
      in template_linked env rest data)"

fun template_uninstalled :: "string list \<Rightarrow> package_data \<Rightarrow> py_error + package_data" where
  "template_uninstalled [] data = Inr data"
| "template_uninstalled (item # rest) data =
     (let jlab = jupyterlab data
      in case (if has_key (extensions jlab) item
               then (case pop (extensions jlab) item of
                       Inl e \<Rightarrow> Inl e | Inr d \<Rightarrow> Inr (jlab\<lparr>extensions := d\<rparr>))
               else (case pop (mimeExtensions jlab) item of
                       Inl e \<Rightarrow> Inl e | Inr d \<Rightarrow> Inr (jlab\<lparr>mimeExtensions := d\<rparr>))) of
           Inl e \<Rightarrow> Inl e
         | Inr jlab \<Rightarrow>
             (case pop (dependencies data) item of
                Inl e \<Rightarrow> Inl e
              | Inr deps \<Rightarrow>
                  template_uninstalled rest (data\<lparr>dependencies := deps, jupyterlab := jlab\<rparr>)))"

definition get_package_template ::
  "'lv environment \<Rightarrow> app_info \<Rightarrow> bool \<Rightarrow> py_error + (package_data \<times> app_info)" where
  "get_package_template env info silent =
     (let data = core_data info;
          local = local_extensions info;
          linked = linked_packages info;
          exts = info_extensions info
      in case get_extension_compat info of
           Inl e \<Rightarrow> Inl e
         | Inr compat_errors \<Rightarrow>
      (case template_extensions env compat_errors exts data of
           Inl e \<Rightarrow> Inl e
         | Inr data \<Rightarrow>
             let data = data\<lparr>jupyterlab := (jupyterlab data)\<lparr>linkedPackages := []\<rparr>\<rparr>;
                 data = template_local local data;
                 data = template_linked env linked data
             in (case template_uninstalled (uninstalled_core info) data of
                   Inl e \<Rightarrow> Inl e
                 | Inr data \<Rightarrow> Inr (data, info\<lparr>core_data := data\<rparr>))))"

text \<open>
  \<^verbatim>\<open>build_check(fast)\<close>, lines 385 to 456. \<^verbatim>\<open>core_version\<close> is read from
  \<^verbatim>\<open>old_jlab['version']\<close>, as the source has it. The messages of the five loops are
  appended in the order of the source.
\<close>

definition extension_messages :: "string dict \<Rightarrow> string dict \<Rightarrow> string list" where
  "extension_messages new old =
     map (\<lambda>ext. ext @ '' needs to be included'')
       (filter (\<lambda>ext. \<not> has_key old ext) (map fst new)) @
     map (\<lambda>ext. ext @ '' needs to be removed'')
       (filter (\<lambda>ext. \<not> has_key new ext) (map fst old))"

fun dependency_messages ::
  "string dict \<Rightarrow> string dict \<Rightarrow> string dict \<Rightarrow> linked_data dict \<Rightarrow> string list" where
  "dependency_messages [] old_deps local linked = []"
| "dependency_messages ((pkg, dep) # rest) old_deps local linked =
     (case map_of old_deps pkg of
        None \<Rightarrow> dependency_messages rest old_deps local linked
      | Some old \<Rightarrow>
          if has_key local pkg \<or> has_key linked pkg
          then dependency_messages rest old_deps local linked
          else if old \<noteq> dep
          then (pkg @ '' changed from '' @ old @ '' to '' @ dep) #
               dependency_messages rest old_deps local linked
          else dependency_messages rest old_deps local linked)"

definition local_messages :: "'lv environment \<Rightarrow> bool \<Rightarrow> string dict \<Rightarrow> string list" where
  "local_messages env fast local =
     map (\<lambda>(name, src). name @ '' content changed'')
       (filter (\<lambda>(name, src). \<not> fast \<and>
                  check_local env name src (pjoin env [app_dir env, ''extensions''])) local)"

definition linked_messages :: "'lv environment \<Rightarrow> bool \<Rightarrow> linked_data dict \<Rightarrow> string list" where
  "linked_messages env fast linked =
     map (\<lambda>(name, item). name @ '' content changed'')
       (filter (\<lambda>(name, item). \<not> fast \<and>
                  check_local env name (source item)
                    (pjoin env [app_dir env, ''staging'', ''linked_packages''])) linked)"

definition build_check ::
  "'lv environment \<Rightarrow> app_info \<Rightarrow> bool \<Rightarrow> py_error + (string list \<times> app_info)" where
  "build_check env info fast =
     (let local = local_extensions info;
          linked = linked_packages info
      in case static_package env of
           None \<Rightarrow> Inr ([''No built application''], info)
         | Some old_jlab \<Rightarrow>
             let old_deps = (case built_dependencies old_jlab of None \<Rightarrow> [] | Some d \<Rightarrow> d);
                 static_version = (case built_version old_jlab of None \<Rightarrow> '''' | Some v \<Rightarrow> v)
             in (case built_version old_jlab of
                   None \<Rightarrow> Inl (KeyError ''version'')
                 | Some core_version \<Rightarrow>
                     if LooseVersion env static_version \<noteq> LooseVersion env core_version
                     then Inr ([''Version mismatch: '' @ static_version @ '' (built), '' @
                                core_version @ '' (current)''], info)
                     else
                       (case get_package_template env info fast of
                          Inl e \<Rightarrow> Inl e
                        | Inr (new_package, info') \<Rightarrow>
                            let new_jlab = jupyterlab new_package;
                                new_deps = dependencies new_package
                            in Inr (extension_messages (extensions new_jlab)
                                      (built_extensions old_jlab) @
                                    extension_messages (mimeExtensions new_jlab)
                                      (built_mimeExtensions old_jlab) @
                                    dependency_messages new_deps old_deps local linked @
                                    local_messages env fast local @
                                    linked_messages env fast linked, info'))))"

section \<open>Helpers of the statements\<close>

text \<open>
  The conflicts that one entry of the dependency map contributes: what the body of the
  loop of \<^verbatim>\<open>_validate_compatibility\<close> appends when the key is in the core's
  dependency map.
\<close>

definition conflict_of :: "string dict \<Rightarrow> string list \<Rightarrow> string \<times> string \<Rightarrow> conflict list" where
  "conflict_of core_deps singletons kv =
     (case kv of (key, value) \<Rightarrow>
        (case map_of core_deps key of
           None \<Rightarrow> []
         | Some pin \<Rightarrow>
             if key \<in> set singletons \<and> test_overlap pin value = Inr (Some False)
             then [(key, pin, value)] else []))"


text \<open>A core template with two singleton packages, for the examples.\<close>

definition example_core :: package_data where
  "example_core =
     \<lparr>dependencies = [(''@phosphor/widgets'', ''^2.0.0''), (''react'', ''1.2.3'')],
      jupyterlab = \<lparr>version = ''0.2.0'', extensions = [], mimeExtensions = [],
        singletonPackages = [''@phosphor/widgets'', ''react''], linkedPackages = []\<rparr>\<rparr>"

text \<open>
  An environment for the examples: paths are joined with a slash, no local content has
  changed, and a version string is compared as it is.
\<close>

definition example_pjoin :: "string list \<Rightarrow> string" where
  "example_pjoin ps = foldr (\<lambda>p q. if q = [] then p else p @ ''/'' @ q) ps []"

definition example_env :: "built_package option \<Rightarrow> string environment" where
  "example_env built =
     \<lparr>app_dir = ''/app'', pjoin = example_pjoin, format_path = (\<lambda>p. ''file:'' @ p),
      check_local = (\<lambda>name src dname. False), LooseVersion = (\<lambda>s. s),
      static_package = built\<rparr>"

text \<open>
  A handler with no installed extension, whose core declares the given extensions, and a
  built package with the given version and extensions.
\<close>

definition example_info :: "string dict \<Rightarrow> app_info" where
  "example_info exts =
     \<lparr>core_data =
        \<lparr>dependencies = [(''react'', ''^16.0.0'')],
         jupyterlab = \<lparr>version = ''0.2.0'', extensions = exts, mimeExtensions = [],
           singletonPackages = [''react''], linkedPackages = []\<rparr>\<rparr>,
      local_extensions = [], linked_packages = [], info_extensions = [],
      uninstalled_core = []\<rparr>"

definition example_built :: "string \<Rightarrow> string dict \<Rightarrow> built_package" where
  "example_built v exts =
     \<lparr>built_version = Some v, built_extensions = exts, built_mimeExtensions = [],
      built_dependencies = Some [(''react'', ''^16.0.0'')]\<rparr>"

text \<open>
  A handler with one installed extension \<^verbatim>\<open>E\<close> and the core extension \<^verbatim>\<open>X\<close>
  uninstalled, and the template that \<^verbatim>\<open>_get_package_template\<close> returns for it.
\<close>

definition example_session :: app_info where
  "example_session =
     \<lparr>core_data =
        \<lparr>dependencies = [(''X'', ''^1.0.0'')],
         jupyterlab = \<lparr>version = ''0.2.0'', extensions = [(''X'', '''')], mimeExtensions = [],
           singletonPackages = [], linkedPackages = []\<rparr>\<rparr>,
      local_extensions = [], linked_packages = [],
      info_extensions =
        [(''E'', \<lparr>path = ''/app/extensions/E.tgz'', ext_version = ''1.0.0'',
                  ext_jupyterlab = [(''extension'', JBool True)], ext_dependencies = []\<rparr>)],
      uninstalled_core = [''X'']\<rparr>"

definition example_template :: package_data where
  "example_template =
     \<lparr>dependencies = [(''E'', ''file:/app/extensions/E.tgz'')],
      jupyterlab = \<lparr>version = ''0.2.0'', extensions = [(''E'', '''')], mimeExtensions = [],
        singletonPackages = [], linkedPackages = []\<rparr>\<rparr>"

section \<open>The overlap test: its results\<close>

text \<open>
  What \<^verbatim>\<open>_test_overlap\<close> returns, by the two range objects alone: nothing below
  depends on how a spec is parsed.
\<close>

lemma compare_versions: "a \<noteq> ANY \<Longrightarrow> b \<noteq> ANY \<Longrightarrow> \<not> isl (compare a b l)"
  by (cases a; cases b) (simp_all add: compare_def)

lemma comparisons_return:
  assumes "a \<noteq> ANY" "b \<noteq> ANY"
  shows "\<not> isl (gt a b l)" "\<not> isl (lt a b l)" "\<not> isl (gte a b l)" "\<not> isl (lte a b l)"
    "\<not> isl (noop a b l)"
  using compare_versions [OF assms, of l]
  by (auto simp: gt_def lt_def gte_def lte_def noop_def split: sum.splits)

lemma py_and_returns: "\<not> isl a \<Longrightarrow> \<not> isl b \<Longrightarrow> \<not> isl (py_and a b)"
  by (cases a; cases b) (simp_all add: py_and_def)

lemma py_or_returns: "\<not> isl a \<Longrightarrow> \<not> isl b \<Longrightarrow> \<not> isl (py_or a b)"
  by (cases a; cases b) (simp_all add: py_or_def)

lemma check_overlap_returns:
  assumes "x1 \<noteq> ANY" "x2 \<noteq> ANY" "y1 \<noteq> ANY" "y2 \<noteq> ANY"
  shows "\<exists>b. check_overlap x1 x2 o1 y1 y2 o2 = Inr b"
proof -
  note r = comparisons_return
  have "\<not> isl (check_overlap x1 x2 o1 y1 y2 o2)"
    unfolding check_overlap_def Let_def
    by (intro py_or_returns py_and_returns)
       (simp_all add: r [OF assms(1) assms(3)] r [OF assms(1) assms(4)]
          r [OF assms(2) assms(3)] r [OF assms(2) assms(4)]
          r [OF assms(3) assms(1)] r [OF assms(3) assms(2)]
          r [OF assms(4) assms(1)] r [OF assms(4) assms(2)])
  then show ?thesis by (cases "check_overlap x1 x2 o1 y1 y2 o2") auto
qed

lemma test_overlap_empty:
  "range' (Range' spec1 True) = [] \<or> range' (Range' spec2 True) = [] \<Longrightarrow>
   test_overlap spec1 spec2 = Inr None"
  by (auto simp: test_overlap_def Let_def)

lemma test_overlap_first_lt:
  assumes "range' (Range' spec1 True) \<noteq> []" "range' (Range' spec2 True) \<noteq> []"
    and "first_last (Range' spec1 True) = Inr (c1, c2)"
    and "first_last (Range' spec2 True) = Inr (d1, d2)"
    and "operator c1 = Some o1" "startswith o1 ''<''"
  shows "test_overlap spec1 spec2 = Inr None"
  using assms by (simp add: test_overlap_def Let_def)

lemma test_overlap_second_lt:
  assumes "range' (Range' spec1 True) \<noteq> []" "range' (Range' spec2 True) \<noteq> []"
    and "first_last (Range' spec1 True) = Inr (c1, c2)"
    and "first_last (Range' spec2 True) = Inr (d1, d2)"
    and "operator c1 = Some o1" "\<not> startswith o1 ''<''"
    and "operator d1 = Some o2" "startswith o2 ''<''"
  shows "test_overlap spec1 spec2 = Inr None"
  using assms by (simp add: test_overlap_def Let_def)

lemma test_overlap_boolean:
  assumes "range' (Range' spec1 True) \<noteq> []" "range' (Range' spec2 True) \<noteq> []"
    and "first_last (Range' spec1 True) = Inr (c1, c2)"
    and "first_last (Range' spec2 True) = Inr (d1, d2)"
    and "operator c1 = Some o1" "\<not> startswith o1 ''<''"
    and "operator d1 = Some o2" "\<not> startswith o2 ''<''"
    and "semver c1 \<noteq> ANY" "semver c2 \<noteq> ANY" "semver d1 \<noteq> ANY" "semver d2 \<noteq> ANY"
  shows "\<exists>b. test_overlap spec1 spec2 = Inr (Some b)"
proof -
  obtain b where "check_overlap (semver c1) (semver c2) o1 (semver d1) (semver d2) o2 = Inr b"
    using check_overlap_returns [OF assms(9-12)] by blast
  with assms(1-8) show ?thesis
    by (simp add: test_overlap_def Let_def)
qed

lemma test_overlap_no_operator:
  assumes "range' (Range' spec1 True) \<noteq> []" "range' (Range' spec2 True) \<noteq> []"
    and "first_last (Range' spec1 True) = Inr (c1, c2)"
    and "first_last (Range' spec2 True) = Inr (d1, d2)"
    and "operator c1 = None"
  shows "test_overlap spec1 spec2 = Inl AttributeError"
  using assms by (simp add: test_overlap_def Let_def)

text \<open>
  C7. The exact pin \<^verbatim>\<open>1.2.3\<close> overlaps the caret range \<^verbatim>\<open>^1.0.0\<close>, which is
  \<^verbatim>\<open>>=1.0.0 <2.0.0\<close>: \<^verbatim>\<open>_test_overlap\<close> returns \<open>True\<close>.
\<close>

theorem test_overlap_pin_in_caret: "test_overlap ''1.2.3'' ''^1.0.0'' = Inr (Some True)"
  by code_simp

text \<open>
  C1. The claim is that swapping the two specs never changes the result. The code breaks
  it: the pin \<^verbatim>\<open>2.0.0\<close> against the hyphen range \<^verbatim>\<open>1.0.0 - 2.0.0\<close>, which is
  \<^verbatim>\<open>>=1.0.0 <=2.0.0\<close>, gives \<open>True\<close>, and the same two specs swapped give
  \<open>False\<close>. The helper \<^verbatim>\<open>gy\<close> is chosen by \<^verbatim>\<open>x1 == x2\<close>, where
  \<^verbatim>\<open>ly\<close> beside it is chosen by \<^verbatim>\<open>y1 == y2\<close>.
\<close>

theorem test_overlap_not_symmetric:
  "test_overlap ''2.0.0'' ''1.0.0 - 2.0.0'' = Inr (Some True) \<and>
   test_overlap ''1.0.0 - 2.0.0'' ''2.0.0'' = Inr (Some False)"
  by code_simp

text \<open>
  C6. The claim is that \<^verbatim>\<open>_test_overlap\<close> returns \<open>None\<close> for an empty range and
  for a first operator that starts with \<^verbatim>\<open><\<close>, and a boolean in all other cases.
  The code breaks it: in \<^verbatim>\<open>* || 1.0.0\<close> the first segment is the comparator that
  admits every version, whose operator is \<^verbatim>\<open>None\<close>; the text of the range is not
  empty, so the test of line 1151 lets it pass, and line 1163 raises
  \<^verbatim>\<open>AttributeError\<close>, also where the other operator starts with \<^verbatim>\<open><\<close>.
\<close>

theorem test_overlap_wildcard_segment:
  "range' (Range' ''* || 1.0.0'' True) = ''||1.0.0'' \<and>
   test_overlap ''* || 1.0.0'' ''1.0.0'' = Inl AttributeError \<and>
   test_overlap ''1.0.0'' ''* || 1.0.0'' = Inl AttributeError \<and>
   test_overlap ''* || 1.0.0'' ''<2.0.0'' = Inl AttributeError"
  by code_simp

text \<open>
  C5, as stated, fails: a spec with a lower bound only does not make the result
  \<open>None\<close>. \<^verbatim>\<open>>1.0.0\<close> against the pin \<^verbatim>\<open>2.0.0\<close> is \<open>True\<close> on either
  side, and \<^verbatim>\<open>>2.0.0\<close> against the pin \<^verbatim>\<open>1.0.0\<close> is \<open>False\<close>, a conflict.
\<close>

theorem lower_bound_only_counterexample:
  "test_overlap ''>1.0.0'' ''2.0.0'' = Inr (Some True) \<and>
   test_overlap ''2.0.0'' ''>1.0.0'' = Inr (Some True) \<and>
   test_overlap ''>2.0.0'' ''1.0.0'' = Inr (Some False)"
  by code_simp

lemma gt_not_lt: "startswith s ''>'' \<Longrightarrow> \<not> startswith s ''<''"
  by (cases s) (auto simp: startswith_def)

text \<open>
  C5, amended. Let the range of a spec be one comparator with a version, whose operator
  starts with \<^verbatim>\<open>>\<close>. Paired with another spec, on either side,
  \<^verbatim>\<open>_test_overlap\<close> returns \<open>None\<close> when the other range is empty, and when the
  operator of its first comparator starts with \<^verbatim>\<open><\<close>; it returns a boolean when
  that operator does not start with \<^verbatim>\<open><\<close> and the first and the last comparator
  of the other range's first segment have versions. Nothing is said of a first
  comparator without operator.
\<close>

theorem lower_bound_only_overlap:
  assumes single: "set' (Range' s True) = [[c]]" "range' (Range' s True) \<noteq> []"
    and lower: "operator c = Some op" "startswith op ''>''" "semver c \<noteq> ANY"
  shows "(range' (Range' t True) = [] \<longrightarrow>
            test_overlap s t = Inr None \<and> test_overlap t s = Inr None) \<and>
         (\<forall>d1 d2 o2.
            range' (Range' t True) \<noteq> [] \<and> first_last (Range' t True) = Inr (d1, d2) \<and>
            operator d1 = Some o2 \<longrightarrow>
              (startswith o2 ''<'' \<longrightarrow>
                 test_overlap s t = Inr None \<and> test_overlap t s = Inr None) \<and>
              (\<not> startswith o2 ''<'' \<and> semver d1 \<noteq> ANY \<and> semver d2 \<noteq> ANY \<longrightarrow>
                 (\<exists>b b'. test_overlap s t = Inr (Some b) \<and> test_overlap t s = Inr (Some b'))))"
proof -
  have fl: "first_last (Range' s True) = Inr (c, c)"
    using single(1) by (simp add: first_last_def)
  have nl: "\<not> startswith op ''<''"
    using lower(2) by (rule gt_not_lt)
  show ?thesis
  proof (intro conjI impI allI; (elim conjE)?)
    assume "range' (Range' t True) = []"
    then show "test_overlap s t = Inr None" "test_overlap t s = Inr None"
      by (simp_all add: test_overlap_empty)
  next
    fix d1 d2 o2
    assume t: "range' (Range' t True) \<noteq> []" "first_last (Range' t True) = Inr (d1, d2)"
      "operator d1 = Some o2"
    {
      assume l: "startswith o2 ''<''"
      show "test_overlap s t = Inr None"
        using single(2) t(1) fl t(2) lower(1) nl t(3) l by (rule test_overlap_second_lt)
      show "test_overlap t s = Inr None"
        using t(1) single(2) t(2) fl t(3) l by (rule test_overlap_first_lt)
    }
    {
      assume n: "\<not> startswith o2 ''<''" "semver d1 \<noteq> ANY" "semver d2 \<noteq> ANY"
      obtain b where b: "test_overlap s t = Inr (Some b)"
        using test_overlap_boolean [OF single(2) t(1) fl t(2) lower(1) nl t(3) n(1)
            lower(3) lower(3) n(2) n(3)] by blast
      obtain b' where b': "test_overlap t s = Inr (Some b')"
        using test_overlap_boolean [OF t(1) single(2) t(2) fl t(3) n(1) lower(1) nl
            n(2) n(3) lower(3) lower(3)] by blast
      from b b' show "\<exists>b b'. test_overlap s t = Inr (Some b) \<and> test_overlap t s = Inr (Some b')"
        by blast
    }
  qed
qed

lemma Range'_gt_100:
  "set' (Range' ''>1.0.0'' True) = [[comparator ''>'' 1 0 0]] \<and>
   range' (Range' ''>1.0.0'' True) = ''>1.0.0''"
  by code_simp

lemma Range'_pin_200:
  "first_last (Range' ''2.0.0'' True) = Inr (comparator [] 2 0 0, comparator [] 2 0 0) \<and>
   range' (Range' ''2.0.0'' True) = ''2.0.0''"
  by code_simp

lemma Range'_lt_300:
  "first_last (Range' ''<3.0.0'' True) = Inr (comparator ''<'' 3 0 0, comparator ''<'' 3 0 0) \<and>
   range' (Range' ''<3.0.0'' True) = ''<3.0.0''"
  by code_simp

lemma Range'_empty: "range' (Range' [] True) = []"
  by code_simp

theorem lower_bound_only_overlap_witness:
  "test_overlap ''>1.0.0'' [] = Inr None \<and> test_overlap [] ''>1.0.0'' = Inr None \<and>
   test_overlap ''>1.0.0'' ''<3.0.0'' = Inr None \<and>
   test_overlap ''<3.0.0'' ''>1.0.0'' = Inr None \<and>
   (\<exists>b b'. test_overlap ''>1.0.0'' ''2.0.0'' = Inr (Some b) \<and>
            test_overlap ''2.0.0'' ''>1.0.0'' = Inr (Some b'))"
proof -
  have s1: "set' (Range' ''>1.0.0'' True) = [[comparator ''>'' 1 0 0]]"
    and s2: "range' (Range' ''>1.0.0'' True) \<noteq> []"
    using Range'_gt_100 by simp_all
  have s3: "operator (comparator ''>'' 1 0 0) = Some ''>''"
    and s4: "startswith ''>'' ''>''"
    and s5: "semver (comparator ''>'' 1 0 0) \<noteq> ANY"
    by (simp_all add: comparator_def startswith_def)
  note th = lower_bound_only_overlap [OF s1 s2 s3 s4 s5]
  have a: "test_overlap ''>1.0.0'' [] = Inr None \<and> test_overlap [] ''>1.0.0'' = Inr None"
    using th [of "[]"] Range'_empty by simp
  have b: "test_overlap ''>1.0.0'' ''<3.0.0'' = Inr None \<and>
           test_overlap ''<3.0.0'' ''>1.0.0'' = Inr None"
    using th [of "''<3.0.0''", THEN conjunct2, rule_format,
        of "comparator ''<'' 3 0 0" "comparator ''<'' 3 0 0" "''<''"] Range'_lt_300
    by (simp add: comparator_def startswith_def)
  have c: "\<exists>b b'. test_overlap ''>1.0.0'' ''2.0.0'' = Inr (Some b) \<and>
            test_overlap ''2.0.0'' ''>1.0.0'' = Inr (Some b')"
    using th [of "''2.0.0''", THEN conjunct2, rule_format,
        of "comparator [] 2 0 0" "comparator [] 2 0 0" "[]"] Range'_pin_200
    by (simp add: comparator_def startswith_def)
  from a b c show ?thesis by simp
qed

section \<open>Compatibility of an extension: the conflicts\<close>

lemma validate_deps_Inr:
  "validate_deps cd sg deps acc = Inr errors \<Longrightarrow>
   errors = acc @ concat (map (conflict_of cd sg) deps)"
proof (induction deps arbitrary: acc)
  case Nil
  then show ?case by simp
next
  case (Cons kv deps)
  obtain key val where kv: "kv = (key, val)" by (cases kv)
  show ?case
  proof (cases "key \<in> set sg")
    case False
    with Cons kv show ?thesis
      by (auto simp: conflict_of_def split: option.splits)
  next
    case True
    with Cons.prems kv obtain pin where pin: "map_of cd key = Some pin"
      by (auto simp: getitem_def split: option.splits)
    with Cons.prems kv True obtain r where r: "test_overlap pin val = Inr r"
      by (auto simp: getitem_def split: sum.splits)
    from Cons.prems kv True pin r
    have "validate_deps cd sg deps (if r = Some False then acc @ [(key, pin, val)] else acc) = Inr errors"
      by (simp add: getitem_def)
    from Cons.IH [OF this] kv True pin r show ?thesis
      by (auto simp: conflict_of_def)
  qed
qed



lemma in_concat_conflict_of:
  "(key, host, req) \<in> set (concat (map (conflict_of cd sg) deps)) \<longleftrightarrow>
   ((key, req) \<in> set deps \<and> key \<in> set sg \<and> map_of cd key = Some host \<and>
    test_overlap host req = Inr (Some False))"
  by (induction deps) (auto simp: conflict_of_def split: option.splits if_splits)

lemma filter_conflict_of_distinct:
  "distinct (map fst deps) \<Longrightarrow> (key, req) \<in> set deps \<Longrightarrow>
   filter (\<lambda>c. fst c = key) (concat (map (conflict_of cd sg) deps)) = conflict_of cd sg (key, req)"
proof (induction deps)
  case Nil
  then show ?case by simp
next
  case (Cons kv deps)
  obtain k v where kv: "kv = (k, v)" by (cases kv)
  have other: "\<And>k' v'. k' \<noteq> key \<Longrightarrow> filter (\<lambda>c. fst c = key) (conflict_of cd sg (k', v')) = []"
    by (auto simp: conflict_of_def split: option.splits)
  have same: "\<And>v'. filter (\<lambda>c. fst c = key) (conflict_of cd sg (key, v')) = conflict_of cd sg (key, v')"
    by (auto simp: conflict_of_def split: option.splits)
  have none: "key \<notin> fst ` set deps \<Longrightarrow> filter (\<lambda>c. fst c = key) (concat (map (conflict_of cd sg) deps)) = []"
    by (induction deps) (auto simp: conflict_of_def split: option.splits)
  show ?case
  proof (cases "k = key")
    case True
    with Cons.prems kv have "v = req" "key \<notin> fst ` set deps"
      by (auto simp: image_iff)
    with True kv same none show ?thesis by simp
  next
    case False
    with Cons kv other show ?thesis by auto
  qed
qed


text \<open>
  C4. When \<^verbatim>\<open>_validate_compatibility\<close> returns, its list holds the triple
  (package, range of the core, range of the extension) exactly for the entries of the
  dependency map whose package is a singleton of the core and for which
  \<^verbatim>\<open>_test_overlap\<close> of the core's pin and the required range is \<open>False\<close>; a result
  \<open>None\<close> adds nothing. A package pinned to \<^verbatim>\<open>^2.0.0\<close> by the core and required
  as \<^verbatim>\<open>^3.0.0\<close> has exactly one conflict in the list.
\<close>

theorem validate_compatibility_conflicts:
  assumes "validate_compatibility ext deps core = Inr errors"
  shows "((key, host, req) \<in> set errors \<longleftrightarrow>
            (key, req) \<in> set deps \<and> key \<in> set (singletonPackages (jupyterlab core)) \<and>
            map_of (dependencies core) key = Some host \<and>
            test_overlap host req = Inr (Some False)) \<and>
         (distinct (map fst deps) \<and> (pkg, ''^3.0.0'') \<in> set deps \<and>
          pkg \<in> set (singletonPackages (jupyterlab core)) \<and>
          map_of (dependencies core) pkg = Some ''^2.0.0'' \<longrightarrow>
          filter (\<lambda>c. fst c = pkg) errors = [(pkg, ''^2.0.0'', ''^3.0.0'')])"
proof -
  have e: "errors = concat (map (conflict_of (dependencies core)
                (singletonPackages (jupyterlab core))) deps)"
    using assms validate_deps_Inr [of _ _ deps "[]" errors]
    by (simp add: validate_compatibility_def Let_def)
  have d: "test_overlap ''^2.0.0'' ''^3.0.0'' = Inr (Some False)"
    by code_simp
  show ?thesis
  proof (intro conjI impI)
    show "(key, host, req) \<in> set errors \<longleftrightarrow>
            (key, req) \<in> set deps \<and> key \<in> set (singletonPackages (jupyterlab core)) \<and>
            map_of (dependencies core) key = Some host \<and>
            test_overlap host req = Inr (Some False)"
      unfolding e by (rule in_concat_conflict_of)
  next
    assume a: "distinct (map fst deps) \<and> (pkg, ''^3.0.0'') \<in> set deps \<and>
          pkg \<in> set (singletonPackages (jupyterlab core)) \<and>
          map_of (dependencies core) pkg = Some ''^2.0.0''"
    then have "filter (\<lambda>c. fst c = pkg) errors =
        conflict_of (dependencies core) (singletonPackages (jupyterlab core)) (pkg, ''^3.0.0'')"
      unfolding e using filter_conflict_of_distinct by blast
    with a d show "filter (\<lambda>c. fst c = pkg) errors = [(pkg, ''^2.0.0'', ''^3.0.0'')]"
      by (simp add: conflict_of_def)
  qed
qed

lemma example_core_conflicts:
  "validate_compatibility ''ext''
     [(''@phosphor/widgets'', ''^3.0.0''), (''react'', ''^1.0.0''), (''left-pad'', ''<1.0.0'')]
     example_core = Inr [(''@phosphor/widgets'', ''^2.0.0'', ''^3.0.0'')]"
  by code_simp

theorem validate_compatibility_conflicts_witness:
  "validate_compatibility ''ext''
     [(''@phosphor/widgets'', ''^3.0.0''), (''react'', ''^1.0.0''), (''left-pad'', ''<1.0.0'')]
     example_core = Inr [(''@phosphor/widgets'', ''^2.0.0'', ''^3.0.0'')] \<and>
   filter (\<lambda>c. fst c = ''@phosphor/widgets'') [(''@phosphor/widgets'', ''^2.0.0'', ''^3.0.0'')] =
     [(''@phosphor/widgets'', ''^2.0.0'', ''^3.0.0'')] \<and>
   test_overlap ''^2.0.0'' ''^3.0.0'' = Inr (Some False)"
  using validate_compatibility_conflicts [OF example_core_conflicts,
      of "''@phosphor/widgets''" "''^2.0.0''" "''^3.0.0''" "''@phosphor/widgets''"]
    example_core_conflicts
  by (simp add: example_core_def)




section \<open>Disabled extensions: the patterns\<close>

lemma literal_match: "\<not> list_ex re_special p \<Longrightarrow> re_match re p n = Inr (startswith n p)"
  by (simp add: re_match_def)

text \<open>
  C8, as stated, fails: with the patterns \<^verbatim>\<open>(\<close> and \<^verbatim>\<open>foo\<close> the name
  \<^verbatim>\<open>foo\<close> equals a pattern, and \<^verbatim>\<open>_is_disabled\<close> does not return \<open>True\<close>:
  \<^verbatim>\<open>re.compile\<close> raises on the first pattern.
\<close>

theorem is_disabled_invalid_pattern:
  "\<not> (\<exists>re_other. is_disabled re_other ''foo'' [''('', ''foo''] = Inr True) \<and>
   ''foo'' \<in> set [''('', ''foo'']"
  by (simp add: re_match_def re_special_def)

text \<open>
  C8, amended. When every pattern of the list compiles, \<^verbatim>\<open>_is_disabled\<close> returns
  \<open>True\<close> if some pattern equals the name or matches at the beginning of the name, and
  \<open>False\<close> otherwise. The pattern \<^verbatim>\<open>foo\<close> disables \<^verbatim>\<open>foobar\<close> and
  \<^verbatim>\<open>foo\<close>, and not \<^verbatim>\<open>bar\<close>.
\<close>

theorem is_disabled_iff:
  "((\<forall>p \<in> set disabled. \<exists>b. re_match re_other p name = Inr b) \<longrightarrow>
      is_disabled re_other name disabled =
        Inr (\<exists>p \<in> set disabled. name = p \<or> re_match re_other p name = Inr True)) \<and>
   is_disabled re_other ''foobar'' [''foo''] = Inr True \<and>
   is_disabled re_other ''bar'' [''foo''] = Inr False \<and>
   is_disabled re_other ''foo'' [''foo''] = Inr True"
proof -
  have g: "(\<forall>p \<in> set disabled. \<exists>b. re_match re_other p name = Inr b) \<Longrightarrow>
      is_disabled re_other name disabled =
        Inr (\<exists>p \<in> set disabled. name = p \<or> re_match re_other p name = Inr True)"
  proof (induction disabled)
    case Nil
    then show ?case by simp
  next
    case (Cons p ps)
    then obtain b where b: "re_match re_other p name = Inr b" by auto
    with Cons show ?case by auto
  qed
  have l: "\<not> list_ex re_special ''foo''"
    by (simp add: re_special_def)
  show ?thesis
    using g by (simp add: literal_match [OF l] startswith_def)
qed

theorem is_disabled_iff_witness:
  "is_disabled (\<lambda>p n. Inr False) ''foobar'' [''foo'', ''bar.*''] = Inr True \<and>
   is_disabled (\<lambda>p n. Inr False) ''baz'' [''foo'', ''bar.*''] = Inr False"
proof -
  have a: "\<forall>p \<in> set [''foo'', ''bar.*'']. \<exists>b. re_match (\<lambda>p n. Inr False) p ''foobar'' = Inr b"
    by (auto simp: re_match_def re_special_def)
  have b: "\<forall>p \<in> set [''foo'', ''bar.*'']. \<exists>b. re_match (\<lambda>p n. Inr False) p ''baz'' = Inr b"
    by (auto simp: re_match_def re_special_def)
  note t1 = is_disabled_iff [of "[''foo'', ''bar.*'']" "\<lambda>p n. Inr False" "''foobar''",
      THEN conjunct1, THEN mp, OF a]
  note t2 = is_disabled_iff [of "[''foo'', ''bar.*'']" "\<lambda>p n. Inr False" "''baz''",
      THEN conjunct1, THEN mp, OF b]
  show ?thesis
    unfolding t1 t2 by (simp add: re_match_def re_special_def startswith_def)
qed

section \<open>The build check\<close>

text \<open>
  C2. The claim is that a built package whose version differs from the version of the
  core gives the single reason of a version mismatch. The code breaks it: the built
  package has version \<^verbatim>\<open>0.1.0\<close>, the core has version \<^verbatim>\<open>0.2.0\<close>, the two
  declare the same extensions, and \<^verbatim>\<open>build_check\<close> returns no reason at all. Both
  sides of the comparison are read from the built package.
\<close>

theorem build_check_version_not_compared:
  "build_check (example_env (Some (example_built ''0.1.0'' [(''A'', ''''), (''C'', '''')])))
     (example_info [(''A'', ''''), (''C'', '''')]) fast =
   Inr ([], example_info [(''A'', ''''), (''C'', '''')])"
  by (cases fast; code_simp)

text \<open>
  C3, as stated, fails: with the extensions \<^verbatim>\<open>A\<close> and \<^verbatim>\<open>B\<close> built and
  \<^verbatim>\<open>A\<close> and \<^verbatim>\<open>C\<close> current, the reason for \<^verbatim>\<open>C\<close> comes first.
\<close>

theorem build_check_order_counterexample:
  "build_check (example_env (Some (example_built ''0.2.0'' [(''A'', ''''), (''B'', '''')])))
     (example_info [(''A'', ''''), (''C'', '''')]) True =
   Inr ([''C needs to be included'', ''B needs to be removed''],
        example_info [(''A'', ''''), (''C'', '''')]) \<and>
   [''C needs to be included'', ''B needs to be removed''] \<noteq>
   [''B needs to be removed'', ''C needs to be included'']"
  by code_simp

lemma has_key_iff: "has_key d k \<longleftrightarrow> k \<in> fst ` set d"
  by (simp add: has_key_def map_of_eq_None_iff)

lemma distinct_pair:
  assumes "distinct xs" "set xs = {a, c}" "a \<noteq> c"
  shows "xs = [a, c] \<or> xs = [c, a]"
proof -
  from assms have "length xs = 2"
    using distinct_card [of xs] by simp
  then obtain x y where xs: "xs = [x, y]"
    by (cases xs; cases "tl xs") auto
  with assms show ?thesis by (auto simp: doubleton_eq_iff)
qed

lemma extension_messages_replaced:
  assumes "distinct (map fst new)" "set (map fst new) = {a, c}"
    and "distinct (map fst old)" "set (map fst old) = {a, b}"
    and "a \<noteq> b" "a \<noteq> c" "b \<noteq> c"
  shows "extension_messages new old =
           [c @ '' needs to be included'', b @ '' needs to be removed'']"
proof -
  have hk_old: "\<And>k. has_key old k \<longleftrightarrow> k = a \<or> k = b"
    using assms(4) by (auto simp: has_key_iff)
  have hk_new: "\<And>k. has_key new k \<longleftrightarrow> k = a \<or> k = c"
    using assms(2) by (auto simp: has_key_iff)
  from distinct_pair [OF assms(1,2,6)] assms(5,6,7)
  have n: "filter (\<lambda>ext. \<not> has_key old ext) (map fst new) = [c]"
    by (auto simp: hk_old)
  from distinct_pair [OF assms(3,4,5)] assms(5,6,7)
  have d: "filter (\<lambda>ext. \<not> has_key new ext) (map fst old) = [b]"
    by (auto simp: hk_new)
  show ?thesis
    by (simp add: extension_messages_def n d)
qed

lemma extension_messages_same_keys:
  "set (map fst new) = set (map fst old) \<Longrightarrow> extension_messages new old = []"
  by (auto simp: extension_messages_def has_key_iff filter_empty_conv)

lemma dependency_messages_unchanged:
  "(\<forall>(pkg, dep) \<in> set new. map_of old pkg = Some dep) \<Longrightarrow>
   dependency_messages new old loc linked = []"
  by (induction new) auto

lemma dependency_messages_same:
  "distinct (map fst d) \<Longrightarrow> dependency_messages d d loc linked = []"
  by (rule dependency_messages_unchanged) auto

lemma local_messages_none:
  "fast \<or> (\<forall>name src dname. \<not> check_local env name src dname) \<Longrightarrow>
   local_messages env fast loc = [] \<and> linked_messages env fast linked = []"
  by (auto simp: local_messages_def linked_messages_def filter_empty_conv)

text \<open>
  C3, amended. When the built package has the extensions \<open>a\<close> and \<open>b\<close>, the current
  template has \<open>a\<close> and \<open>c\<close>, and the mime extensions, the dependencies and the
  local content are unchanged, \<^verbatim>\<open>build_check\<close> returns exactly two reasons: first
  that \<open>c\<close> needs to be included, then that \<open>b\<close> needs to be removed.
\<close>

theorem build_check_replaced_extension:
  assumes built: "static_package env = Some old" "built_version old = Some v"
    and template: "get_package_template env info fast = Inr (new_package, info')"
    and old_exts: "distinct (map fst (built_extensions old))"
      "set (map fst (built_extensions old)) = {a, b}"
    and new_exts: "distinct (map fst (extensions (jupyterlab new_package)))"
      "set (map fst (extensions (jupyterlab new_package))) = {a, c}"
    and different: "a \<noteq> b" "a \<noteq> c" "b \<noteq> c"
    and mime: "built_mimeExtensions old = mimeExtensions (jupyterlab new_package)"
    and deps: "built_dependencies old = Some (dependencies new_package)"
      "distinct (map fst (dependencies new_package))"
    and content: "fast \<or> (\<forall>name src dname. \<not> check_local env name src dname)"
  shows "build_check env info fast =
           Inr ([c @ '' needs to be included'', b @ '' needs to be removed''], info')"
proof -
  have 1: "extension_messages (extensions (jupyterlab new_package)) (built_extensions old) =
      [c @ '' needs to be included'', b @ '' needs to be removed'']"
    using new_exts old_exts different by (rule extension_messages_replaced)
  have 2: "extension_messages (mimeExtensions (jupyterlab new_package))
      (built_mimeExtensions old) = []"
    using mime by (simp add: extension_messages_same_keys)
  have 3: "dependency_messages (dependencies new_package) (dependencies new_package)
      (local_extensions info) (linked_packages info) = []"
    using deps(2) by (rule dependency_messages_same)
  note 4 = local_messages_none [OF content, of "local_extensions info" "linked_packages info"]
  show ?thesis
    by (simp add: build_check_def Let_def built template deps(1) 1 2 3 4)
qed

theorem build_check_replaced_extension_witness:
  "build_check (example_env (Some (example_built ''0.2.0'' [(''B'', ''''), (''A'', '''')])))
     (example_info [(''A'', ''''), (''C'', '''')]) False =
   Inr ([''C needs to be included'', ''B needs to be removed''],
        example_info [(''A'', ''''), (''C'', '''')])"
proof -
  let ?old = "example_built ''0.2.0'' [(''B'', ''''), (''A'', '''')]"
  let ?env = "example_env (Some ?old)"
  let ?info = "example_info [(''A'', ''''), (''C'', '''')]"
  have t: "get_package_template ?env ?info False = Inr (core_data ?info, ?info)"
    by code_simp
  have h1: "static_package ?env = Some ?old"
    by (simp add: example_env_def)
  have h2: "built_version ?old = Some ''0.2.0''"
    by (simp add: example_built_def)
  have h3: "distinct (map fst (built_extensions ?old))"
    by (simp add: example_built_def)
  have h4: "set (map fst (built_extensions ?old)) = {''A'', ''B''}"
    by (auto simp: example_built_def)
  have h5: "distinct (map fst (extensions (jupyterlab (core_data ?info))))"
    by (simp add: example_info_def)
  have h6: "set (map fst (extensions (jupyterlab (core_data ?info)))) = {''A'', ''C''}"
    by (auto simp: example_info_def)
  have h7: "''A'' \<noteq> ''B''" "''A'' \<noteq> ''C''" "''B'' \<noteq> ''C''"
    by simp_all
  have h8: "built_mimeExtensions ?old = mimeExtensions (jupyterlab (core_data ?info))"
    by (simp add: example_built_def example_info_def)
  have h9: "built_dependencies ?old = Some (dependencies (core_data ?info))"
    by (simp add: example_built_def example_info_def)
  have h10: "distinct (map fst (dependencies (core_data ?info)))"
    by (simp add: example_info_def)
  have h11: "False \<or> (\<forall>name src dname. \<not> check_local ?env name src dname)"
    by (simp add: example_env_def)
  show ?thesis
    using build_check_replaced_extension [OF h1 h2 t h3 h4 h5 h6 h7 h8 h9 h10 h11]
    by simp
qed

section \<open>The package template\<close>

text \<open>
  C9, as stated, fails: after \<^verbatim>\<open>_get_package_template\<close> returns, the
  \<^verbatim>\<open>core_data\<close> of the handler is the returned template and differs from what it
  was; a second call on the same handler starts from it, and here raises
  \<^verbatim>\<open>KeyError\<close>, since the uninstalled core extension is already gone.
\<close>

theorem get_package_template_mutates:
  "get_package_template (example_env None) example_session False =
     Inr (example_template, example_session\<lparr>core_data := example_template\<rparr>) \<and>
   core_data (example_session\<lparr>core_data := example_template\<rparr>) \<noteq> core_data example_session \<and>
   get_package_template (example_env None) (example_session\<lparr>core_data := example_template\<rparr>) False =
     Inl (KeyError ''X'')"
  by code_simp

lemma add_entry_points_frame:
  "version (add_entry_points key jd jlab) = version jlab \<and>
   singletonPackages (add_entry_points key jd jlab) = singletonPackages jlab"
  by (simp add: add_entry_points_def Let_def split: option.splits)

lemma template_extensions_frame:
  "template_extensions env ce exts data = Inr data' \<Longrightarrow>
   version (jupyterlab data') = version (jupyterlab data) \<and>
   singletonPackages (jupyterlab data') = singletonPackages (jupyterlab data)"
proof (induction exts arbitrary: data)
  case Nil
  then show ?case by simp
next
  case (Cons kv exts)
  obtain key val where kv: "kv = (key, val)" by (cases kv)
  from Cons.prems kv obtain errors where e: "getitem ce key = Inr errors"
    by (auto split: sum.splits)
  show ?case
  proof (cases "errors = []")
    case False
    with Cons kv e show ?thesis by simp
  next
    case True
    let ?d = "data\<lparr>dependencies := setitem (dependencies data) key (format_path env (path val)),
                   jupyterlab := add_entry_points key (ext_jupyterlab val) (jupyterlab data)\<rparr>"
    from Cons.prems kv e True have "template_extensions env ce exts ?d = Inr data'"
      by (simp add: Let_def)
    from Cons.IH [OF this] show ?thesis
      by (simp add: add_entry_points_frame)
  qed
qed

lemma template_local_frame:
  "version (jupyterlab (template_local loc data)) = version (jupyterlab data) \<and>
   singletonPackages (jupyterlab (template_local loc data)) = singletonPackages (jupyterlab data)"
  by (induction loc data rule: template_local.induct) simp_all

lemma template_linked_frame:
  "version (jupyterlab (template_linked env linked data)) = version (jupyterlab data) \<and>
   singletonPackages (jupyterlab (template_linked env linked data)) =
     singletonPackages (jupyterlab data)"
  by (induction env linked data rule: template_linked.induct) (simp_all add: Let_def)

lemma template_uninstalled_frame:
  "template_uninstalled items data = Inr data' \<Longrightarrow>
   version (jupyterlab data') = version (jupyterlab data) \<and>
   singletonPackages (jupyterlab data') = singletonPackages (jupyterlab data)"
proof (induction items arbitrary: data)
  case Nil
  then show ?case by simp
next
  case (Cons item items)
  from Cons.prems obtain jlab deps where
    j: "(if has_key (extensions (jupyterlab data)) item
         then (case pop (extensions (jupyterlab data)) item of
                 Inl e \<Rightarrow> Inl e | Inr d \<Rightarrow> Inr ((jupyterlab data)\<lparr>extensions := d\<rparr>))
         else (case pop (mimeExtensions (jupyterlab data)) item of
                 Inl e \<Rightarrow> Inl e | Inr d \<Rightarrow> Inr ((jupyterlab data)\<lparr>mimeExtensions := d\<rparr>))) = Inr jlab"
    and d: "pop (dependencies data) item = Inr deps"
    and r: "template_uninstalled items (data\<lparr>dependencies := deps, jupyterlab := jlab\<rparr>) = Inr data'"
    by (auto simp: Let_def split: sum.splits)
  from j have "version jlab = version (jupyterlab data) \<and>
      singletonPackages jlab = singletonPackages (jupyterlab data)"
    by (auto split: if_splits sum.splits)
  with Cons.IH [OF r] show ?case by simp
qed

text \<open>
  C9, amended. \<^verbatim>\<open>_get_package_template\<close> works on the \<^verbatim>\<open>core_data\<close> of the
  handler itself: when it returns, the handler's \<^verbatim>\<open>core_data\<close> is the returned
  template, every other part of the handler's info is unchanged, and the template has
  the version and the singleton packages of the core data it started from.
\<close>

theorem get_package_template_in_place:
  assumes "get_package_template env info silent = Inr (data, info')"
  shows "info' = info\<lparr>core_data := data\<rparr> \<and>
         core_data info' = data \<and>
         local_extensions info' = local_extensions info \<and>
         linked_packages info' = linked_packages info \<and>
         info_extensions info' = info_extensions info \<and>
         uninstalled_core info' = uninstalled_core info \<and>
         version (jupyterlab data) = version (jupyterlab (core_data info)) \<and>
         singletonPackages (jupyterlab data) = singletonPackages (jupyterlab (core_data info))"
proof -
  from assms obtain ce d1 where
    d1: "template_extensions env ce (info_extensions info) (core_data info) = Inr d1"
    and d2: "template_uninstalled (uninstalled_core info)
        (template_linked env (linked_packages info)
          (template_local (local_extensions info)
            (d1\<lparr>jupyterlab := (jupyterlab d1)\<lparr>linkedPackages := []\<rparr>\<rparr>))) = Inr data"
    and i: "info' = info\<lparr>core_data := data\<rparr>"
    by (auto simp: get_package_template_def Let_def split: sum.splits)
  from template_extensions_frame [OF d1] template_uninstalled_frame [OF d2]
  have "version (jupyterlab data) = version (jupyterlab (core_data info)) \<and>
        singletonPackages (jupyterlab data) = singletonPackages (jupyterlab (core_data info))"
    by (simp add: template_linked_frame template_local_frame)
  with i show ?thesis by simp
qed

theorem get_package_template_in_place_witness:
  "get_package_template (example_env None) example_session False =
     Inr (example_template, example_session\<lparr>core_data := example_template\<rparr>) \<and>
   version (jupyterlab example_template) = version (jupyterlab (core_data example_session)) \<and>
   dependencies example_template \<noteq> dependencies (core_data example_session)"
proof -
  have t: "get_package_template (example_env None) example_session False =
     Inr (example_template, example_session\<lparr>core_data := example_template\<rparr>)"
    by code_simp
  have d: "dependencies example_template \<noteq> dependencies (core_data example_session)"
    by (simp add: example_template_def example_session_def)
  from get_package_template_in_place [OF t] t d show ?thesis by simp
qed

end
